theory Spec2Isabelle
  imports Main "HOL-Library.Word"
begin

section \<open>Data model\<close>

text \<open>
  The exec endpoint of the client agent (\<^verbatim>\<open>Allocations.exec\<close>, \<^verbatim>\<open>Allocations.execImpl\<close>
  and the \<^verbatim>\<open>execStream\<close> adapter) is embedded as state-passing functions. Go values
  are modelled as follows: a \<^verbatim>\<open>string\<close> as \<open>string\<close>, a \<^verbatim>\<open>[]byte\<close> as a list of
  8-bit words, an \<^verbatim>\<open>int64\<close> as a 64-bit word, a pointer that may be \<^verbatim>\<open>nil\<close> as an
  \<open>option\<close>, an \<^verbatim>\<open>error\<close> result as \<open>error option\<close> (\<open>None\<close> is \<^verbatim>\<open>nil\<close>).
\<close>

type_synonym bytes = "8 word list"
type_synonym int64 = "64 word"

text \<open>
  Error values. \<open>ErrPermissionDenied\<close> is \<^verbatim>\<open>nstructs.ErrPermissionDenied\<close>;
  \<open>allocIDNotPresentErr\<close> and \<open>taskNotPresentErr\<close> are the package-level error
  variables of the same names; \<open>errorsNew s\<close> is \<^verbatim>\<open>errors.New(s)\<close>;
  \<open>Errorf f a\<close> is \<^verbatim>\<open>fmt.Errorf(f, a)\<close> for a format \<open>f\<close> with one \<^verbatim>\<open>%q\<close> verb;
  \<open>EOF\<close> is \<^verbatim>\<open>io.EOF\<close>; \<open>ErrOther s\<close> is any other error of a collaborator, by
  its message.
\<close>

datatype error =
    ErrPermissionDenied
  | allocIDNotPresentErr
  | taskNotPresentErr
  | errorsNew string
  | Errorf string string
  | EOF
  | ErrOther string

text \<open>
  The text of a formatted error: the format with its \<^verbatim>\<open>%q\<close> verb replaced by the
  quoted operand. The quoting function (\<^verbatim>\<open>strconv.Quote\<close> of the Go library) is a
  parameter.
\<close>

fun Sprintf_q :: "(string \<Rightarrow> string) \<Rightarrow> string \<Rightarrow> string \<Rightarrow> string" where
  "Sprintf_q quote [] a = []"
| "Sprintf_q quote [c] a = [c]"
| "Sprintf_q quote (c # d # cs) a =
     (if c = CHR ''%'' \<and> d = CHR ''q'' then quote a @ cs
      else c # Sprintf_q quote (d # cs) a)"

record QueryOptions =
  AuthToken :: string

text \<open>\<^verbatim>\<open>cstructs.AllocExecRequest\<close>, with the fields \<^verbatim>\<open>execImpl\<close> reads.\<close>

record AllocExecRequest =
  AllocID :: string
  Task :: string
  Tty :: bool
  Cmd :: "string list"
  QueryOptions :: QueryOptions

text \<open>
  Modelled from the spec: the declarations of the two frame types
  (\<^verbatim>\<open>drivers.ExecTaskStreamingResponseMsg\<close>, \<^verbatim>\<open>drivers.ExecTaskStreamingRequestMsg\<close>) and
  of the envelope (\<^verbatim>\<open>cstructs.StreamErrWrapper\<close>) are not part of the sources at hand;
  their fields follow the wire description: an output frame
  \<^verbatim>\<open>{stdout: bytes?, stderr: bytes?, exited: bool, exitCode: int?}\<close>, an input frame
  \<^verbatim>\<open>{stdin: bytes?, ttySize: {height,width}?, close: bool?}\<close>, an envelope
  \<^verbatim>\<open>{payload: bytes, errorMessage: optional string, errorCode: optional integer}\<close>.
\<close>

record ExecTaskStreamingResponseMsg =
  Stdout :: "bytes option"
  Stderr :: "bytes option"
  Exited :: bool
  ExitCode :: "int option"

record ExecTaskStreamingRequestMsg =
  Stdin :: "bytes option"
  TtySize :: "(int \<times> int) option"
  Close :: "bool option"

record StreamErrWrapper =
  Payload :: bytes
  ErrorMessage :: "string option"
  ErrorCode :: "int64 option"

text \<open>The zero value \<^verbatim>\<open>drivers.ExecTaskStreamingRequestMsg{}\<close>.\<close>

definition zeroRequestMsg :: ExecTaskStreamingRequestMsg where
  "zeroRequestMsg = \<lparr>Stdin = None, TtySize = None, Close = None\<rparr>"

subsection \<open>Log and calls on collaborators\<close>

datatype logval =
    VStr string
  | VStrs "string list"
  | VBool bool
  | VCode int64
  | VCodePtr "int64 option"
  | VErr error
  | VReq AllocExecRequest
  | VMsg ExecTaskStreamingResponseMsg

datatype level = LInfo | LError

text \<open>
  What a run leaves behind, in order: the entries written to \<^verbatim>\<open>a.c.logger\<close>, the calls
  of \<^verbatim>\<open>aclObj.AllowNsOp\<close> (namespace and capability), the call of the driver's exec
  handler (command and tty flag), and the deferred \<^verbatim>\<open>cancel()\<close> of the session
  context.
\<close>

datatype event =
    LogEntry level string "(string \<times> logval) list"
  | AllowNsOpCall string string
  | ExecHandlerCall "string list" bool
  | ContextCancel

subsection \<open>The connection, as the two codecs see it\<close>

text \<open>
  \<^verbatim>\<open>codec.Decoder\<close> over the connection. \<open>request\<close> is what the first
  \<^verbatim>\<open>Decode(&req)\<close> gives; \<open>frames\<close> holds, for each later message in order, what
  \<^verbatim>\<open>Decode\<close> does to the frame it is handed (the frame it leaves there and the error it
  returns). Once the messages are used up, \<^verbatim>\<open>Decode\<close> leaves its target alone and returns
  \<^verbatim>\<open>io.EOF\<close>.
\<close>

record Decoder =
  request :: "error + AllocExecRequest"
  frames :: "(ExecTaskStreamingRequestMsg \<Rightarrow> ExecTaskStreamingRequestMsg \<times> error option) list"

definition Decode ::
  "Decoder \<Rightarrow> ExecTaskStreamingRequestMsg \<Rightarrow> Decoder \<times> ExecTaskStreamingRequestMsg \<times> error option" where
  "Decode d target =
     (case frames d of
        [] \<Rightarrow> (d, target, Some EOF)
      | f # fs \<Rightarrow> (d\<lparr>frames := fs\<rparr>, fst (f target), snd (f target)))"

text \<open>
  \<^verbatim>\<open>codec.Encoder\<close> over the connection: \<open>written\<close> is the sequence of envelopes
  encoded onto the connection so far; \<open>fault\<close> is the error of a connection that no
  longer takes writes.
\<close>

record Encoder =
  written :: "StreamErrWrapper list"
  fault :: "error option"

definition Encode :: "Encoder \<Rightarrow> StreamErrWrapper \<Rightarrow> Encoder \<times> error option" where
  "Encode e v =
     (case fault e of
        Some err \<Rightarrow> (e, Some err)
      | None \<Rightarrow> (e\<lparr>written := written e @ [v]\<rparr>, None))"

text \<open>
  The state shared by \<^verbatim>\<open>exec\<close>, \<^verbatim>\<open>execImpl\<close> and the stream: the logger and the calls
  made (\<open>trace\<close>), the decoder and the encoder of the connection, and whether the
  connection has been closed.
\<close>

record World =
  trace :: "event list"
  decoder :: Decoder
  encoder :: Encoder
  closed :: bool

definition emit :: "event \<Rightarrow> World \<Rightarrow> World" where
  "emit ev w = w\<lparr>trace := trace w @ [ev]\<rparr>"

definition logger :: "level \<Rightarrow> string \<Rightarrow> (string \<times> logval) list \<Rightarrow> World \<Rightarrow> World" where
  "logger lvl msg kvs w = emit (LogEntry lvl msg kvs) w"

text \<open>The events a run added to the trace it started with.\<close>

definition emitted :: "World \<Rightarrow> World \<Rightarrow> event list" where
  "emitted w w' = drop (length (trace w)) (trace w')"

text \<open>A call either returns or panics (\<^verbatim>\<open>MustEncode\<close> panics when encoding fails).\<close>

datatype 'a outcome = Panic error | Done 'a

section \<open>The frame transport: \<^verbatim>\<open>execStream\<close>\<close>

text \<open>
  \<^verbatim>\<open>execStream\<close> holds pointers to the logger, the decoder and the encoder, which are
  those of the \<open>World\<close>, and owns the buffer \<open>buf\<close> and the frame codec writing into
  it. \<open>frameCodec\<close> is the inner encoding of \<^verbatim>\<open>nstructs.JsonHandle\<close>: the bytes of a
  frame, or the error on which \<^verbatim>\<open>MustEncode\<close> panics.
\<close>

record execStream =
  buf :: bytes
  frameCodec :: "ExecTaskStreamingResponseMsg \<Rightarrow> error + bytes"

definition newExecStream :: "(ExecTaskStreamingResponseMsg \<Rightarrow> error + bytes) \<Rightarrow> execStream" where
  "newExecStream JsonHandle = \<lparr>buf = [], frameCodec = JsonHandle\<rparr>"

text \<open>
  \<^verbatim>\<open>Send\<close>: log the frame, reset the buffer, encode the frame into it with the frame
  codec, and encode an envelope carrying the buffer's bytes as its payload onto the
  connection. The envelope literal sets \<^verbatim>\<open>Payload\<close> only.
\<close>

definition Send ::
  "execStream \<Rightarrow> World \<Rightarrow> ExecTaskStreamingResponseMsg
     \<Rightarrow> error option outcome \<times> execStream \<times> World" where
  "Send s w m =
     (let w1 = logger LInfo ''alloc_exec: sending event'' [(''message'', VMsg m)] w;
          s1 = s\<lparr>buf := []\<rparr>
      in case frameCodec s1 m of
           Inl err \<Rightarrow> (Panic err, s1, w1)
         | Inr bs \<Rightarrow>
             (let s2 = s1\<lparr>buf := buf s1 @ bs\<rparr>;
                  r = Encode (encoder w1)
                        \<lparr>Payload = buf s2, ErrorMessage = None, ErrorCode = None\<rparr>
              in (Done (snd r), s2, w1\<lparr>encoder := fst r\<rparr>)))"

text \<open>
  \<^verbatim>\<open>Recv\<close>: decode the next message into a fresh zero frame and return the pointer to
  that frame together with the decoder's error. The pointer is an \<open>option\<close>.
\<close>

definition Recv ::
  "execStream \<Rightarrow> World \<Rightarrow> (ExecTaskStreamingRequestMsg option \<times> error option) \<times> World" where
  "Recv s w =
     (let req = zeroRequestMsg;
          r = Decode (decoder w) req
      in ((Some (fst (snd r)), snd (snd r)), w\<lparr>decoder := fst r\<rparr>))"


section \<open>Collaborators\<close>

text \<open>
  A driver's exec handler has the stream as its only access to the connection. For a
  given command and tty flag, what it does is a tree of its calls on the stream: it
  returns its error, or it calls \<^verbatim>\<open>Send\<close> with a frame and goes on with the error
  \<^verbatim>\<open>Send\<close> returned, or it calls \<^verbatim>\<open>Recv\<close> and goes on with the frame pointer and the
  error \<^verbatim>\<open>Recv\<close> returned. The tree is well-founded: the handlers modelled are those
  that return.
\<close>

datatype ExecProg =
    Return "error option"
  | SendThen ExecTaskStreamingResponseMsg "error option \<Rightarrow> ExecProg"
  | RecvThen "ExecTaskStreamingRequestMsg option \<times> error option \<Rightarrow> ExecProg"

type_synonym TaskExecHandler = "string list \<Rightarrow> bool \<Rightarrow> ExecProg"

text \<open>Running a handler against the stream; a panic inside \<^verbatim>\<open>Send\<close> unwinds it.\<close>

primrec runHandler ::
  "ExecProg \<Rightarrow> execStream \<Rightarrow> World \<Rightarrow> error option outcome \<times> execStream \<times> World" where
  "runHandler (Return r) s w = (Done r, s, w)"
| "runHandler (SendThen m k) s w =
     (case Send s w m of
        (Panic err, s', w') \<Rightarrow> (Panic err, s', w')
      | (Done r, s', w') \<Rightarrow> runHandler (k r) s' w')"
| "runHandler (RecvThen k) s w =
     (case Recv s w of (r, w') \<Rightarrow> runHandler (k r) s w')"

record Allocation =
  Namespace :: string

text \<open>
  Modelled from the spec: the declaration of \<^verbatim>\<open>drivers.FSIsolation\<close> and of its constant
  \<^verbatim>\<open>drivers.FSIsolationNone\<close> is not part of the sources at hand; the isolation mode is
  a string and the mode of an unisolated task is "none".
\<close>

record Capabilities =
  FSIsolation :: string

definition FSIsolationNone :: string where
  "FSIsolationNone = ''none''"

text \<open>
  Modelled from the spec: the two capability names of package \<^verbatim>\<open>acl\<close> are declared
  outside the sources at hand; they are "alloc-exec" and "alloc-node-exec".
\<close>

definition NamespaceCapabilityAllocExec :: string where
  "NamespaceCapabilityAllocExec = ''alloc-exec''"

definition NamespaceCapabilityAllocNodeExec :: string where
  "NamespaceCapabilityAllocNodeExec = ''alloc-node-exec''"

text \<open>The resolved capability set: \<^verbatim>\<open>acl.ACL\<close>, by its method \<^verbatim>\<open>AllowNsOp\<close>.\<close>

record ACL =
  AllowNsOp :: "string \<Rightarrow> string \<Rightarrow> bool"

record ACLToken =
  Name :: string
  AccessorID :: string

text \<open>
  \<^verbatim>\<open>time.Time\<close> as the offset from the zero instant, so that \<^verbatim>\<open>IsZero\<close> is the
  comparison with 0.
\<close>

type_synonym Time = int

definition IsZero :: "Time \<Rightarrow> bool" where
  "IsZero t = (t = 0)"

record TaskState =
  StartedAt :: Time

text \<open>\<^verbatim>\<open>TaskStates\<close> is a \<^verbatim>\<open>map[string]*TaskState\<close>: a key may be absent or hold \<^verbatim>\<open>nil\<close>.\<close>

record AllocState =
  TaskStates :: "string \<rightharpoonup> TaskState option"

text \<open>Indexing a Go map of pointers: \<^verbatim>\<open>nil\<close> for an absent key.\<close>

definition index_ptr :: "('k \<rightharpoonup> 'v option) \<Rightarrow> 'k \<Rightarrow> 'v option" where
  "index_ptr m k = (case m k of None \<Rightarrow> None | Some p \<Rightarrow> p)"

record AllocRunner =
  Alloc :: Allocation
  GetTaskDriverCapabilities :: "string \<Rightarrow> error + Capabilities"
  GetTaskExecHandler :: "string \<Rightarrow> TaskExecHandler option"

text \<open>The client \<^verbatim>\<open>a.c\<close>, by the methods \<^verbatim>\<open>execImpl\<close> calls on it.\<close>

record Client =
  DisableRemoteExec :: bool
  getAllocRunner :: "string \<Rightarrow> error + AllocRunner"
  resolveTokenAndACL :: "string \<Rightarrow> ACL option \<times> ACLToken option \<times> error option"
  GetAllocState :: "string \<Rightarrow> error + AllocState"

text \<open>
  What the endpoint takes from other packages and files: the predicate
  \<^verbatim>\<open>nstructs.IsErrUnknownAllocation\<close>, the frame encoding of \<^verbatim>\<open>nstructs.JsonHandle\<close>,
  the helper \<^verbatim>\<open>handleStreamResultError\<close> (by what it does to the encoder) and the
  identifier \<^verbatim>\<open>uuid.Generate()\<close> returns. They are parameters.
\<close>

record Externals =
  IsErrUnknownAllocation :: "error \<Rightarrow> bool"
  JsonHandle :: "ExecTaskStreamingResponseMsg \<Rightarrow> error + bytes"
  handleStreamResultError :: "error \<Rightarrow> int64 option \<Rightarrow> Encoder \<Rightarrow> Encoder"
  uuidGenerate :: string

section \<open>The endpoint\<close>

text \<open>
  \<^verbatim>\<open>execImpl\<close>, check by check in the order of the source. The result is the pair
  \<open>(code, err)\<close>; the deferred \<^verbatim>\<open>cancel()\<close> runs on every return after the session
  context was made.
\<close>

definition execImpl ::
  "Externals \<Rightarrow> Client \<Rightarrow> string \<Rightarrow> World \<Rightarrow> (int64 option \<times> error option) outcome \<times> World" where
  "execImpl x c execID w0 =
     (case request (decoder w0) of
        Inl err \<Rightarrow>
          (Done (Some 500, Some err),
           logger LError ''alloc_exec: failed to decode request'' [(''error'', VErr err)] w0)
      | Inr req \<Rightarrow>
     (let w1 = logger LError ''alloc_exec: parsed args'' [(''request'', VReq req)] w0 in
      if DisableRemoteExec c then (Done (None, Some ErrPermissionDenied), w1)
      else if AllocID req = [] then (Done (Some 400, Some allocIDNotPresentErr), w1)
      else
     (case getAllocRunner c (AllocID req) of
        Inl err \<Rightarrow>
          (let code = (if IsErrUnknownAllocation x err then 404 else 500) in
           (Done (Some code, Some err),
            logger LError ''alloc_exec: failed to get alloc runner''
              [(''alloc_id'', VStr (AllocID req)), (''code'', VCode code),
               (''error'', VErr err)] w1))
      | Inr ar \<Rightarrow>
     (let alloc = Alloc ar;
          res = resolveTokenAndACL c (AuthToken (QueryOptions req));
          aclObj = fst res;
          token = fst (snd res);
          err = snd (snd res);
          tokenName = (case token of None \<Rightarrow> [] | Some t \<Rightarrow> Name t);
          tokenID = (case token of None \<Rightarrow> [] | Some t \<Rightarrow> AccessorID t);
          w2 = logger LInfo ''task exec session starting''
                 [(''exec_id'', VStr execID),
                  (''alloc_id'', VStr (AllocID req)),
                  (''task'', VStr (Task req)),
                  (''command'', VStrs (Cmd req)),
                  (''tty'', VBool (Tty req)),
                  (''access_token_name'', VStr tokenName),
                  (''access_token_id'', VStr tokenID)] w1
      in
     (case err of
        Some e \<Rightarrow> (Done (None, Some e), w2)
      | None \<Rightarrow>
     (let allocExec =
            (case aclObj of
               None \<Rightarrow> (True, w2)
             | Some a \<Rightarrow>
                 (AllowNsOp a (Namespace alloc) NamespaceCapabilityAllocExec,
                  emit (AllowNsOpCall (Namespace alloc) NamespaceCapabilityAllocExec) w2));
          w3 = snd allocExec
      in
      if \<not> fst allocExec then (Done (None, Some ErrPermissionDenied), w3)
      else if Task req = [] then (Done (Some 400, Some taskNotPresentErr), w3)
      else if length (Cmd req) = 0
      then (Done (Some 400, Some (errorsNew ''command is not present'')), w3)
      else
     (case GetTaskDriverCapabilities ar (Task req) of
        Inl err \<Rightarrow>
          (Done (Some (if IsErrUnknownAllocation x err then 404 else 500), Some err), w3)
      | Inr capabilities \<Rightarrow>
     (let nodeExec =
            (case aclObj of
               None \<Rightarrow> (True, w3)
             | Some a \<Rightarrow>
                 if FSIsolation capabilities = FSIsolationNone
                 then (AllowNsOp a (Namespace alloc) NamespaceCapabilityAllocNodeExec,
                       emit (AllowNsOpCall (Namespace alloc)
                               NamespaceCapabilityAllocNodeExec) w3)
                 else (True, w3));
          w4 = snd nodeExec
      in
      if \<not> fst nodeExec then (Done (None, Some ErrPermissionDenied), w4)
      else
     (case GetAllocState c (AllocID req) of
        Inl err \<Rightarrow>
          (Done (Some (if IsErrUnknownAllocation x err then 404 else 500), Some err), w4)
      | Inr allocState \<Rightarrow>
     (case index_ptr (TaskStates allocState) (Task req) of
        None \<Rightarrow>
          (Done (Some 400, Some (Errorf ''unknown task name %q'' (Task req))), w4)
      | Some taskState \<Rightarrow>
      if IsZero (StartedAt taskState)
      then (Done (Some 404, Some (Errorf ''task %q not started yet.'' (Task req))), w4)
      else
     (case GetTaskExecHandler ar (Task req) of
        None \<Rightarrow>
          (Done (Some 404, Some (Errorf ''task %q is not running.'' (Task req))),
           emit ContextCancel w4)
      | Some h \<Rightarrow>
     (let w5 = emit (ExecHandlerCall (Cmd req) (Tty req)) w4;
          r = runHandler (h (Cmd req) (Tty req)) (newExecStream (JsonHandle x)) w5;
          w6 = snd (snd r)
      in
     (case fst r of
        Panic e \<Rightarrow> (Panic e, emit ContextCancel w6)
      | Done (Some err) \<Rightarrow>
          (Done (Some 500, Some err),
           emit ContextCancel
             (logger LError ''alloc_exec: handler call failed''
                [(''code'', VCode 500), (''error'', VErr err)] w6))
      | Done None \<Rightarrow>
          (Done (None, None),
           emit ContextCancel
             (logger LError ''alloc_exec: finished without error'' [] w6)))))))))))))))"

text \<open>
  \<^verbatim>\<open>exec\<close>: run \<^verbatim>\<open>execImpl\<close> over the connection; on an error log it and hand it,
  with its code, to \<^verbatim>\<open>handleStreamResultError\<close>; close the connection on every path
  (the deferred \<^verbatim>\<open>conn.Close()\<close> also runs when the call panics). The timing metric
  of the deferred \<^verbatim>\<open>metrics.MeasureSince\<close> is left out.
\<close>

definition exec :: "Externals \<Rightarrow> Client \<Rightarrow> World \<Rightarrow> unit outcome \<times> World" where
  "exec x c w =
     (let execID = uuidGenerate x;
          r = execImpl x c execID w;
          w1 = snd r
      in case fst r of
           Panic e \<Rightarrow> (Panic e, w1\<lparr>closed := True\<rparr>)
         | Done (code, Some err) \<Rightarrow>
             (let w2 = logger LInfo ''task exec session ended with an error''
                         [(''error'', VErr err), (''code'', VCodePtr code)] w1;
                  w3 = w2\<lparr>encoder := handleStreamResultError x err code (encoder w2)\<rparr>
              in (Done (), w3\<lparr>closed := True\<rparr>))
         | Done (code, None) \<Rightarrow>
             (let w2 = logger LInfo ''task exec session ended'' [(''exec_id'', VStr execID)] w1
              in (Done (), w2\<lparr>closed := True\<rparr>)))"


section \<open>Predicates on runs\<close>

fun isHandlerCall :: "event \<Rightarrow> bool" where
  "isHandlerCall (ExecHandlerCall cmd tty) = True"
| "isHandlerCall _ = False"

text \<open>The driver's exec handler was invoked between the two states.\<close>

definition handlerInvoked :: "World \<Rightarrow> World \<Rightarrow> bool" where
  "handlerInvoked w w' = list_ex isHandlerCall (emitted w w')"

text \<open>
  The authorization context grants a capability: an implicitly trusted context
  (\<^verbatim>\<open>aclObj == nil\<close>) grants everything, a resolved one what \<^verbatim>\<open>AllowNsOp\<close> says.
\<close>

definition allowed :: "ACL option \<Rightarrow> string \<Rightarrow> string \<Rightarrow> bool" where
  "allowed aclObj ns cap = (case aclObj of None \<Rightarrow> True | Some a \<Rightarrow> AllowNsOp a ns cap)"

text \<open>The envelopes written to the connection between the two states.\<close>

definition sentBy :: "World \<Rightarrow> World \<Rightarrow> StreamErrWrapper list" where
  "sentBy w w' = drop (length (written (encoder w))) (written (encoder w'))"

text \<open>Envelopes that carry a payload only: neither error field is set.\<close>

definition plainEnvelopes :: "StreamErrWrapper list \<Rightarrow> bool" where
  "plainEnvelopes vs = list_all (\<lambda>v. ErrorMessage v = None \<and> ErrorCode v = None) vs"

fun isLogEntry :: "event \<Rightarrow> bool" where
  "isLogEntry (LogEntry l m k) = True"
| "isLogEntry _ = False"

definition onlyLogs :: "event list \<Rightarrow> bool" where
  "onlyLogs es = list_all isLogEntry es"

section \<open>Concrete instances\<close>

text \<open>
  An allocation \<open>a1\<close> in namespace \<open>default\<close> with one task \<open>web\<close>, a caller
  holding a given list of capabilities on that namespace, and a connection carrying
  one request.
\<close>

definition stdoutFrame :: "bytes \<Rightarrow> ExecTaskStreamingResponseMsg" where
  "stdoutFrame b = \<lparr>Stdout = Some b, Stderr = None, Exited = False, ExitCode = None\<rparr>"

definition exitFrame :: "int \<Rightarrow> ExecTaskStreamingResponseMsg" where
  "exitFrame n = \<lparr>Stdout = None, Stderr = None, Exited = True, ExitCode = Some n\<rparr>"

text \<open>A small frame codec for frames of standard output, and its inverse.\<close>

definition sampleEncode :: "ExecTaskStreamingResponseMsg \<Rightarrow> error + bytes" where
  "sampleEncode m = Inr (case Stdout m of Some b \<Rightarrow> 1 # b | None \<Rightarrow> [0])"

definition sampleDecode :: "bytes \<Rightarrow> error + ExecTaskStreamingResponseMsg" where
  "sampleDecode bs =
     (case bs of
        [] \<Rightarrow> Inl (ErrOther ''empty frame'')
      | t # b \<Rightarrow> if t = 1 then Inr (stdoutFrame b) else Inl (ErrOther ''unknown frame''))"

text \<open>A handler that writes \<open>hi\<close> to standard output and then the exit frame.\<close>

definition sampleHandler :: TaskExecHandler where
  "sampleHandler cmd tty =
     SendThen (stdoutFrame [104, 105])
       (\<lambda>e. case e of
               Some err \<Rightarrow> Return (Some err)
             | None \<Rightarrow> SendThen (exitFrame 0) Return)"

definition failingHandler :: TaskExecHandler where
  "failingHandler cmd tty = Return (Some (ErrOther ''exec failed''))"

text \<open>A handler that writes \<open>hi\<close> to standard output and then fails.\<close>

definition sendThenFailHandler :: TaskExecHandler where
  "sendThenFailHandler cmd tty =
     SendThen (stdoutFrame [104, 105]) (\<lambda>e. Return (Some (ErrOther ''exec failed'')))"

definition sampleACL :: "string list \<Rightarrow> ACL" where
  "sampleACL caps = \<lparr>AllowNsOp = (\<lambda>ns cap. ns = ''default'' \<and> cap \<in> set caps)\<rparr>"

definition sampleToken :: ACLToken where
  "sampleToken = \<lparr>Name = ''dev'', AccessorID = ''acc-1''\<rparr>"

definition sampleRunner :: "string \<Rightarrow> TaskExecHandler option \<Rightarrow> AllocRunner" where
  "sampleRunner isolation handler =
     \<lparr>Alloc = \<lparr>Namespace = ''default''\<rparr>,
      GetTaskDriverCapabilities =
        (\<lambda>t. if t = ''web'' then Inr \<lparr>FSIsolation = isolation\<rparr>
             else Inl (ErrOther ''task not found'')),
      GetTaskExecHandler = (\<lambda>t. if t = ''web'' then handler else None)\<rparr>"

definition sampleClient :: "ACL option \<Rightarrow> AllocRunner \<Rightarrow> Time \<Rightarrow> Client" where
  "sampleClient aclObj runner started =
     \<lparr>DisableRemoteExec = False,
      getAllocRunner =
        (\<lambda>id. if id = ''a1'' then Inr runner else Inl (ErrOther ''Unknown allocation'')),
      resolveTokenAndACL =
        (\<lambda>tok. case aclObj of
                  None \<Rightarrow> (None, None, None)
                | Some a \<Rightarrow> (Some a, Some sampleToken, None)),
      GetAllocState =
        (\<lambda>id. if id = ''a1''
              then Inr \<lparr>TaskStates = [''web'' \<mapsto> Some \<lparr>StartedAt = started\<rparr>]\<rparr>
              else Inl (ErrOther ''Unknown allocation''))\<rparr>"

definition sampleExternals :: Externals where
  "sampleExternals =
     \<lparr>IsErrUnknownAllocation = (\<lambda>e. e = ErrOther ''Unknown allocation''),
      JsonHandle = sampleEncode,
      handleStreamResultError =
        (\<lambda>err code enc.
           fst (Encode enc \<lparr>Payload = [], ErrorMessage = Some ''error'', ErrorCode = code\<rparr>)),
      uuidGenerate = ''exec-1''\<rparr>"

definition sampleRequest :: "string \<Rightarrow> string \<Rightarrow> string list \<Rightarrow> AllocExecRequest" where
  "sampleRequest alloc task cmd =
     \<lparr>AllocID = alloc, Task = task, Tty = False, Cmd = cmd,
      QueryOptions = \<lparr>AuthToken = ''secret''\<rparr>\<rparr>"

definition sampleWorld :: "AllocExecRequest \<Rightarrow> World" where
  "sampleWorld req =
     \<lparr>trace = [],
      decoder = \<lparr>request = Inr req, frames = []\<rparr>,
      encoder = \<lparr>written = [], fault = None\<rparr>,
      closed = False\<rparr>"

lemmas sample_defs =
  stdoutFrame_def exitFrame_def sampleEncode_def sampleDecode_def sampleHandler_def
  failingHandler_def sendThenFailHandler_def sampleACL_def sampleToken_def sampleRunner_def sampleClient_def
  sampleExternals_def sampleRequest_def sampleWorld_def
  NamespaceCapabilityAllocExec_def NamespaceCapabilityAllocNodeExec_def FSIsolationNone_def

section \<open>Auxiliary facts\<close>

lemma emit_fields [simp]:
  "decoder (emit e w) = decoder w" "encoder (emit e w) = encoder w"
  "closed (emit e w) = closed w" "trace (emit e w) = trace w @ [e]"
  by (simp_all add: emit_def)

lemmas execImpl_unfold = execImpl_def Let_def handlerInvoked_def emitted_def logger_def

lemma Send_world:
  "trace (snd (snd (Send s w m))) =
      trace w @ [LogEntry LInfo ''alloc_exec: sending event'' [(''message'', VMsg m)]]
   \<and> decoder (snd (snd (Send s w m))) = decoder w
   \<and> closed (snd (snd (Send s w m))) = closed w
   \<and> fault (encoder (snd (snd (Send s w m)))) = fault (encoder w)
   \<and> written (encoder (snd (snd (Send s w m)))) =
       written (encoder w) @ sentBy w (snd (snd (Send s w m)))
   \<and> plainEnvelopes (sentBy w (snd (snd (Send s w m))))
   \<and> length (sentBy w (snd (snd (Send s w m)))) \<le> 1"
  by (simp add: Send_def Encode_def logger_def Let_def sentBy_def plainEnvelopes_def
        split: sum.splits option.splits)

lemma Recv_world:
  "trace (snd (Recv s w)) = trace w \<and> encoder (snd (Recv s w)) = encoder w
     \<and> closed (snd (Recv s w)) = closed w"
  by (simp add: Recv_def Let_def)

lemma runHandler_world:
  "\<exists>es vs. trace (snd (snd (runHandler p s w))) = trace w @ es \<and> onlyLogs es
      \<and> written (encoder (snd (snd (runHandler p s w)))) = written (encoder w) @ vs
      \<and> plainEnvelopes vs"
proof (induction p arbitrary: s w)
  case (Return r)
  show ?case by (simp add: onlyLogs_def plainEnvelopes_def)
next
  case (SendThen m k)
  obtain o1 s1 w1 where S: "Send s w m = (o1, s1, w1)"
    by (cases "Send s w m") auto
  from Send_world[of s w m] S have
    W: "trace w1 = trace w @ [LogEntry LInfo ''alloc_exec: sending event'' [(''message'', VMsg m)]]"
       "written (encoder w1) = written (encoder w) @ sentBy w w1"
       "plainEnvelopes (sentBy w w1)"
    by simp_all
  show ?case
  proof (cases o1)
    case (Panic e)
    with S W show ?thesis by (auto simp: onlyLogs_def)
  next
    case (Done r)
    from SendThen.IH[of "k r" s1 w1] obtain es vs where
      "trace (snd (snd (runHandler (k r) s1 w1))) = trace w1 @ es" "onlyLogs es"
      "written (encoder (snd (snd (runHandler (k r) s1 w1)))) = written (encoder w1) @ vs"
      "plainEnvelopes vs"
      by blast
    with S W Done show ?thesis
      by (auto simp: onlyLogs_def plainEnvelopes_def)
  qed
next
  case (RecvThen k)
  obtain r w1 where R: "Recv s w = (r, w1)"
    by (cases "Recv s w") auto
  from Recv_world[of s w] R have W: "trace w1 = trace w" "encoder w1 = encoder w"
    by auto
  from RecvThen.IH[of "k r" s w1] R W show ?case by auto
qed

lemma runHandler_sent:
  "written (encoder (snd (snd (runHandler p s w)))) =
     written (encoder w) @ sentBy w (snd (snd (runHandler p s w)))
   \<and> plainEnvelopes (sentBy w (snd (snd (runHandler p s w))))"
  using runHandler_world[of p s w] by (auto simp: sentBy_def)

lemma Send_indep:
  assumes "decoder w = decoder v" "encoder w = encoder v"
  shows "fst (Send s w m) = fst (Send s v m)
     \<and> fst (snd (Send s w m)) = fst (snd (Send s v m))
     \<and> decoder (snd (snd (Send s w m))) = decoder (snd (snd (Send s v m)))
     \<and> encoder (snd (snd (Send s w m))) = encoder (snd (snd (Send s v m)))"
  using assms
  by (simp add: Send_def Encode_def logger_def Let_def split: sum.splits option.splits)

lemma Recv_indep:
  assumes "decoder w = decoder v" "encoder w = encoder v"
  shows "fst (Recv s w) = fst (Recv s v)
     \<and> decoder (snd (Recv s w)) = decoder (snd (Recv s v))
     \<and> encoder (snd (Recv s w)) = encoder (snd (Recv s v))"
  using assms by (simp add: Recv_def Let_def)

lemma runHandler_indep:
  "decoder w = decoder v \<Longrightarrow> encoder w = encoder v \<Longrightarrow>
   fst (runHandler p s w) = fst (runHandler p s v)
     \<and> decoder (snd (snd (runHandler p s w))) = decoder (snd (snd (runHandler p s v)))
     \<and> encoder (snd (snd (runHandler p s w))) = encoder (snd (snd (runHandler p s v)))"
proof (induction p arbitrary: s w v)
  case (Return r)
  then show ?case by simp
next
  case (SendThen m k)
  obtain o1 s1 w1 where S1: "Send s w m = (o1, s1, w1)"
    by (cases "Send s w m") auto
  from Send_indep[OF SendThen.prems, of s m] S1
  obtain w2 where S2: "Send s v m = (o1, s1, w2)"
    and E: "decoder w1 = decoder w2" "encoder w1 = encoder w2"
    by (cases "Send s v m") auto
  show ?case
  proof (cases o1)
    case (Panic e)
    with S1 S2 E show ?thesis by simp
  next
    case (Done r)
    with S1 S2 SendThen.IH[OF _ E, of "k r" s1] show ?thesis by simp
  qed
next
  case (RecvThen k)
  obtain r1 w1 where R1: "Recv s w = (r1, w1)"
    by (cases "Recv s w") auto
  from Recv_indep[OF RecvThen.prems, of s] R1
  obtain w2 where R2: "Recv s v = (r1, w2)"
    and E: "decoder w1 = decoder w2" "encoder w1 = encoder w2"
    by (cases "Recv s v") auto
  with R1 RecvThen.IH[OF _ E, of "k r1" s] show ?case by simp
qed

lemma runHandler_emit [simp]:
  "fst (runHandler p s (emit e w)) = fst (runHandler p s w)"
  "encoder (snd (snd (runHandler p s (emit e w)))) = encoder (snd (snd (runHandler p s w)))"
  "decoder (snd (snd (runHandler p s (emit e w)))) = decoder (snd (snd (runHandler p s w)))"
  using runHandler_indep[of "emit e w" w p s] by simp_all

lemma execImpl_encoder:
  "encoder (snd (execImpl x c eid w)) = encoder w
   \<or> (\<exists>p s. encoder (snd (execImpl x c eid w)) = encoder (snd (snd (runHandler p s w))))"
proof (cases "request (decoder w)")
  case (Inl e)
  then show ?thesis by (simp add: execImpl_def logger_def)
next
  case R: (Inr req)
  obtain aclObj token err where RES:
    "resolveTokenAndACL c (AuthToken (QueryOptions req)) = (aclObj, token, err)"
    by (cases "resolveTokenAndACL c (AuthToken (QueryOptions req))") auto
  show ?thesis
  proof (cases "getAllocRunner c (AllocID req)")
    case (Inl e)
    with R show ?thesis by (simp add: execImpl_def Let_def logger_def)
  next
    case AR: (Inr ar)
    show ?thesis
    proof (cases "GetTaskDriverCapabilities ar (Task req)")
      case (Inl e)
      with R AR RES show ?thesis
        by (cases aclObj; cases err) (simp_all add: execImpl_def Let_def logger_def)
    next
      case CAPS: (Inr caps)
      show ?thesis
      proof (cases "GetAllocState c (AllocID req)")
        case (Inl e)
        with R AR RES CAPS show ?thesis
          by (cases aclObj; cases err) (simp_all add: execImpl_def Let_def logger_def)
      next
        case ST: (Inr st)
        show ?thesis
        proof (cases "index_ptr (TaskStates st) (Task req)")
          case None
          with R AR RES CAPS ST show ?thesis
            by (cases aclObj; cases err) (simp_all add: execImpl_def Let_def logger_def)
        next
          case TS: (Some ts)
          show ?thesis
          proof (cases "GetTaskExecHandler ar (Task req)")
            case None
            with R AR RES CAPS ST TS show ?thesis
              by (cases aclObj; cases err) (simp_all add: execImpl_def Let_def logger_def)
          next
            case (Some h)
            with R AR RES CAPS ST TS show ?thesis
              by (cases aclObj; cases err)
                 (auto simp add: execImpl_def Let_def logger_def
                    split: outcome.split option.split)
          qed
        qed
      qed
    qed
  qed
qed

text \<open>
  A run in which the handler was invoked passed every check before the invocation, and
  its result and its writes are those of the handler's run on the connection.
\<close>

lemma handler_reached:
  assumes H: "handlerInvoked w (snd (execImpl x c eid w))"
  shows "\<exists>req ar h. request (decoder w) = Inr req
      \<and> AllocID req \<noteq> [] \<and> Task req \<noteq> [] \<and> Cmd req \<noteq> []
      \<and> getAllocRunner c (AllocID req) = Inr ar
      \<and> GetTaskExecHandler ar (Task req) = Some h
      \<and> fst (execImpl x c eid w) =
           (case fst (runHandler (h (Cmd req) (Tty req)) (newExecStream (JsonHandle x)) w) of
              Panic e \<Rightarrow> Panic e
            | Done None \<Rightarrow> Done (None, None)
            | Done (Some err) \<Rightarrow> Done (Some 500, Some err))
      \<and> encoder (snd (execImpl x c eid w)) =
           encoder (snd (snd (runHandler (h (Cmd req) (Tty req))
                                (newExecStream (JsonHandle x)) w)))"
proof -
  obtain req where R: "request (decoder w) = Inr req"
    using H by (cases "request (decoder w)") (simp_all add: execImpl_unfold)
  have D: "\<not> DisableRemoteExec c"
    using H R by (rule_tac notI) (simp add: execImpl_unfold)
  have A: "AllocID req \<noteq> []"
    using H R D by (rule_tac notI) (simp add: execImpl_unfold)
  obtain ar where AR: "getAllocRunner c (AllocID req) = Inr ar"
    using H R D A by (cases "getAllocRunner c (AllocID req)") (simp_all add: execImpl_unfold)
  obtain aclObj token err where RES:
    "resolveTokenAndACL c (AuthToken (QueryOptions req)) = (aclObj, token, err)"
    by (cases "resolveTokenAndACL c (AuthToken (QueryOptions req))") auto
  have E: "err = None"
    using H R D A AR RES by (cases err) (simp_all add: execImpl_unfold)
  have P1: "allowed aclObj (Namespace (Alloc ar)) NamespaceCapabilityAllocExec"
    using H R D A AR RES E
    by (cases aclObj; rule_tac ccontr) (simp_all add: execImpl_unfold allowed_def)
  have T: "Task req \<noteq> []"
    using H R D A AR RES E P1
    by (cases aclObj; rule_tac notI) (simp_all add: execImpl_unfold allowed_def)
  have C: "Cmd req \<noteq> []"
    using H R D A AR RES E P1 T
    by (cases aclObj; rule_tac notI) (simp_all add: execImpl_unfold allowed_def)
  obtain caps where CAPS: "GetTaskDriverCapabilities ar (Task req) = Inr caps"
    using H R D A AR RES E P1 T C
    by (cases "GetTaskDriverCapabilities ar (Task req)"; cases aclObj)
       (simp_all add: execImpl_unfold allowed_def)
  have P2: "FSIsolation caps = FSIsolationNone \<longrightarrow>
            allowed aclObj (Namespace (Alloc ar)) NamespaceCapabilityAllocNodeExec"
    using H R D A AR RES E P1 T C CAPS
    by (cases aclObj; rule_tac ccontr) (simp_all add: execImpl_unfold allowed_def)
  note pre = R D A AR RES E P1 T C CAPS P2
  obtain st where ST: "GetAllocState c (AllocID req) = Inr st"
    using H pre
    by (cases "GetAllocState c (AllocID req)"; cases aclObj;
        cases "FSIsolation caps = FSIsolationNone")
       (auto simp add: execImpl_unfold allowed_def)
  obtain ts where TS: "index_ptr (TaskStates st) (Task req) = Some ts"
    using H pre ST
    by (cases "index_ptr (TaskStates st) (Task req)"; cases aclObj;
        cases "FSIsolation caps = FSIsolationNone")
       (auto simp add: execImpl_unfold allowed_def)
  have Z: "\<not> IsZero (StartedAt ts)"
    using H pre ST TS
    by (cases aclObj; cases "FSIsolation caps = FSIsolationNone"; rule_tac notI)
       (auto simp add: execImpl_unfold allowed_def)
  obtain h where HD: "GetTaskExecHandler ar (Task req) = Some h"
    using H pre ST TS Z
    by (cases "GetTaskExecHandler ar (Task req)"; cases aclObj;
        cases "FSIsolation caps = FSIsolationNone")
       (auto simp add: execImpl_unfold allowed_def)
  have "fst (execImpl x c eid w) =
           (case fst (runHandler (h (Cmd req) (Tty req)) (newExecStream (JsonHandle x)) w) of
              Panic e \<Rightarrow> Panic e
            | Done None \<Rightarrow> Done (None, None)
            | Done (Some err) \<Rightarrow> Done (Some 500, Some err))
      \<and> encoder (snd (execImpl x c eid w)) =
           encoder (snd (snd (runHandler (h (Cmd req) (Tty req))
                                (newExecStream (JsonHandle x)) w)))"
    using pre ST TS Z HD
    by (cases aclObj; cases "FSIsolation caps = FSIsolationNone")
       (auto simp add: execImpl_def Let_def logger_def allowed_def
          split: outcome.splits option.splits)
  with R A T C AR HD show ?thesis by blast
qed

lemma execImpl_sent:
  "written (encoder (snd (execImpl x c eid w))) =
     written (encoder w) @ sentBy w (snd (execImpl x c eid w))
   \<and> plainEnvelopes (sentBy w (snd (execImpl x c eid w)))"
proof -
  from execImpl_encoder[of x c eid w] consider
      (unchanged) "encoder (snd (execImpl x c eid w)) = encoder w"
    | (session) p s where
        "encoder (snd (execImpl x c eid w)) = encoder (snd (snd (runHandler p s w)))"
    by blast
  then show ?thesis
  proof cases
    case unchanged
    then show ?thesis by (simp add: sentBy_def plainEnvelopes_def)
  next
    case session
    with runHandler_sent[of p s w] show ?thesis by (simp add: sentBy_def)
  qed
qed


section \<open>Request validation\<close>

text \<open>
  The checks of \<^verbatim>\<open>execImpl\<close> run in sequence, and a statement about one of them is a
  statement about the runs that get as far as that check: its hypotheses say that the
  checks before it let the request through.
\<close>

text \<open>
  Claim C1. A decoded request for a task whose driver reports filesystem isolation
  "none", presented with a resolved (not implicitly trusted) authorization context that
  lacks the capability "alloc-node-exec" on the allocation's namespace, is refused with
  \<open>ErrPermissionDenied\<close> and no status code, and the driver's handler is not
  invoked. Nothing is assumed about "alloc-exec": the refusal stands when it is granted.
  The request has passed the field checks that precede the node-access check
  (allocation ID, task name and command present).
\<close>

theorem node_exec_denied:
  assumes "request (decoder w) = Inr req"
    and "AllocID req \<noteq> []" and "Task req \<noteq> []" and "Cmd req \<noteq> []"
    and "getAllocRunner c (AllocID req) = Inr ar"
    and "resolveTokenAndACL c (AuthToken (QueryOptions req)) = (Some aclObj, token, None)"
    and "GetTaskDriverCapabilities ar (Task req) = Inr caps"
    and "FSIsolation caps = FSIsolationNone"
    and "\<not> AllowNsOp aclObj (Namespace (Alloc ar)) NamespaceCapabilityAllocNodeExec"
  shows "fst (execImpl x c eid w) = Done (None, Some ErrPermissionDenied)
         \<and> \<not> handlerInvoked w (snd (execImpl x c eid w))"
  using assms by (simp add: execImpl_unfold)

theorem node_exec_denied_witness:
  "AllowNsOp (sampleACL [''alloc-exec'']) ''default'' NamespaceCapabilityAllocExec
   \<and> \<not> AllowNsOp (sampleACL [''alloc-exec'']) ''default'' NamespaceCapabilityAllocNodeExec
   \<and> GetTaskDriverCapabilities (sampleRunner ''none'' (Some sampleHandler)) ''web''
       = Inr \<lparr>FSIsolation = FSIsolationNone\<rparr>
   \<and> fst (execImpl sampleExternals
        (sampleClient (Some (sampleACL [''alloc-exec''])) (sampleRunner ''none'' (Some sampleHandler)) 5)
        ''exec-1'' (sampleWorld (sampleRequest ''a1'' ''web'' [''/bin/echo'', ''hi''])))
     = Done (None, Some ErrPermissionDenied)
   \<and> \<not> handlerInvoked (sampleWorld (sampleRequest ''a1'' ''web'' [''/bin/echo'', ''hi'']))
        (snd (execImpl sampleExternals
          (sampleClient (Some (sampleACL [''alloc-exec''])) (sampleRunner ''none'' (Some sampleHandler)) 5)
          ''exec-1'' (sampleWorld (sampleRequest ''a1'' ''web'' [''/bin/echo'', ''hi'']))))"
  using node_exec_denied
      [of "sampleWorld (sampleRequest ''a1'' ''web'' [''/bin/echo'', ''hi''])"
          "sampleRequest ''a1'' ''web'' [''/bin/echo'', ''hi'']"
          "sampleClient (Some (sampleACL [''alloc-exec''])) (sampleRunner ''none'' (Some sampleHandler)) 5"
          "sampleRunner ''none'' (Some sampleHandler)"
          "sampleACL [''alloc-exec'']" "Some sampleToken" "\<lparr>FSIsolation = ''none''\<rparr>"
          sampleExternals "''exec-1''"]
  by (simp add: sample_defs)

text \<open>
  Claim C2. A decoded request for a known allocation, presented with a resolved (not
  implicitly trusted) authorization context that lacks the capability "alloc-exec" on
  the allocation's namespace, is refused with \<open>ErrPermissionDenied\<close> and a nil
  status code, and the driver's handler is not invoked.
\<close>

theorem alloc_exec_denied:
  assumes "request (decoder w) = Inr req" and "AllocID req \<noteq> []"
    and "getAllocRunner c (AllocID req) = Inr ar"
    and "resolveTokenAndACL c (AuthToken (QueryOptions req)) = (Some aclObj, token, None)"
    and "\<not> AllowNsOp aclObj (Namespace (Alloc ar)) NamespaceCapabilityAllocExec"
  shows "fst (execImpl x c eid w) = Done (None, Some ErrPermissionDenied)
         \<and> \<not> handlerInvoked w (snd (execImpl x c eid w))"
  using assms by (simp add: execImpl_unfold)

theorem alloc_exec_denied_witness:
  "request (decoder (sampleWorld (sampleRequest ''a1'' ''web'' [''/bin/echo'', ''hi''])))
     = Inr (sampleRequest ''a1'' ''web'' [''/bin/echo'', ''hi''])
   \<and> \<not> AllowNsOp (sampleACL [''read-job'']) ''default'' NamespaceCapabilityAllocExec
   \<and> fst (execImpl sampleExternals
        (sampleClient (Some (sampleACL [''read-job''])) (sampleRunner ''chroot'' (Some sampleHandler)) 5)
        ''exec-1'' (sampleWorld (sampleRequest ''a1'' ''web'' [''/bin/echo'', ''hi''])))
     = Done (None, Some ErrPermissionDenied)
   \<and> \<not> handlerInvoked (sampleWorld (sampleRequest ''a1'' ''web'' [''/bin/echo'', ''hi'']))
        (snd (execImpl sampleExternals
          (sampleClient (Some (sampleACL [''read-job''])) (sampleRunner ''chroot'' (Some sampleHandler)) 5)
          ''exec-1'' (sampleWorld (sampleRequest ''a1'' ''web'' [''/bin/echo'', ''hi'']))))"
  using alloc_exec_denied
      [of "sampleWorld (sampleRequest ''a1'' ''web'' [''/bin/echo'', ''hi''])"
          "sampleRequest ''a1'' ''web'' [''/bin/echo'', ''hi'']"
          "sampleClient (Some (sampleACL [''read-job''])) (sampleRunner ''chroot'' (Some sampleHandler)) 5"
          "sampleRunner ''chroot'' (Some sampleHandler)"
          "sampleACL [''read-job'']" "Some sampleToken" sampleExternals "''exec-1''"]
  by (simp add: sample_defs)

text \<open>
  Claim C8. A request that passes validation and names a task absent from the task-state
  mapping of the allocation is answered with status 400 and the error
  \<^verbatim>\<open>unknown task name %q\<close> formatted with the task name (its text starts with
  "unknown task name"), and the driver's handler is not invoked.
\<close>

theorem unknown_task_name:
  assumes "request (decoder w) = Inr req" and "\<not> DisableRemoteExec c"
    and "AllocID req \<noteq> []" and "Task req \<noteq> []" and "Cmd req \<noteq> []"
    and "getAllocRunner c (AllocID req) = Inr ar"
    and "resolveTokenAndACL c (AuthToken (QueryOptions req)) = (aclObj, token, None)"
    and "allowed aclObj (Namespace (Alloc ar)) NamespaceCapabilityAllocExec"
    and "GetTaskDriverCapabilities ar (Task req) = Inr caps"
    and "FSIsolation caps = FSIsolationNone \<longrightarrow>
           allowed aclObj (Namespace (Alloc ar)) NamespaceCapabilityAllocNodeExec"
    and "GetAllocState c (AllocID req) = Inr st"
    and "TaskStates st (Task req) = None"
  shows "fst (execImpl x c eid w) =
           Done (Some 400, Some (Errorf ''unknown task name %q'' (Task req)))
         \<and> Sprintf_q quote ''unknown task name %q'' (Task req)
             = ''unknown task name '' @ quote (Task req)
         \<and> \<not> handlerInvoked w (snd (execImpl x c eid w))"
  using assms
  by (cases aclObj) (simp_all add: execImpl_unfold allowed_def index_ptr_def)

theorem unknown_task_name_witness:
  "TaskStates \<lparr>TaskStates = [''web'' \<mapsto> Some \<lparr>StartedAt = 5\<rparr>]\<rparr> ''db'' = None
   \<and> fst (execImpl sampleExternals
        (sampleClient (Some (sampleACL [''alloc-exec'']))
           \<lparr>Alloc = \<lparr>Namespace = ''default''\<rparr>,
            GetTaskDriverCapabilities = (\<lambda>t. Inr \<lparr>FSIsolation = ''chroot''\<rparr>),
            GetTaskExecHandler = (\<lambda>t. Some sampleHandler)\<rparr> 5)
        ''exec-1'' (sampleWorld (sampleRequest ''a1'' ''db'' [''/bin/echo'', ''hi''])))
     = Done (Some 400, Some (Errorf ''unknown task name %q'' ''db''))
   \<and> \<not> handlerInvoked (sampleWorld (sampleRequest ''a1'' ''db'' [''/bin/echo'', ''hi'']))
        (snd (execImpl sampleExternals
          (sampleClient (Some (sampleACL [''alloc-exec'']))
           \<lparr>Alloc = \<lparr>Namespace = ''default''\<rparr>,
            GetTaskDriverCapabilities = (\<lambda>t. Inr \<lparr>FSIsolation = ''chroot''\<rparr>),
            GetTaskExecHandler = (\<lambda>t. Some sampleHandler)\<rparr> 5)
          ''exec-1'' (sampleWorld (sampleRequest ''a1'' ''db'' [''/bin/echo'', ''hi'']))))"
  using unknown_task_name
      [of "sampleWorld (sampleRequest ''a1'' ''db'' [''/bin/echo'', ''hi''])"
          "sampleRequest ''a1'' ''db'' [''/bin/echo'', ''hi'']"
          "sampleClient (Some (sampleACL [''alloc-exec'']))
           \<lparr>Alloc = \<lparr>Namespace = ''default''\<rparr>,
            GetTaskDriverCapabilities = (\<lambda>t. Inr \<lparr>FSIsolation = ''chroot''\<rparr>),
            GetTaskExecHandler = (\<lambda>t. Some sampleHandler)\<rparr> 5"
          "\<lparr>Alloc = \<lparr>Namespace = ''default''\<rparr>,
            GetTaskDriverCapabilities = (\<lambda>t. Inr \<lparr>FSIsolation = ''chroot''\<rparr>),
            GetTaskExecHandler = (\<lambda>t. Some sampleHandler)\<rparr>"
          "Some (sampleACL [''alloc-exec''])" "Some sampleToken" "\<lparr>FSIsolation = ''chroot''\<rparr>"
          "\<lparr>TaskStates = [''web'' \<mapsto> Some \<lparr>StartedAt = 5\<rparr>]\<rparr>"
          sampleExternals "''exec-1''" "id"]
  by (simp add: sample_defs allowed_def)


text \<open>
  Claim C6. For a decoded request with a non-empty allocation ID on a node where remote
  exec is not disabled, a failed allocation lookup gives status 404 when the error is an
  unknown-allocation error and status 500 for any other error, each paired with the
  lookup's error, and the driver's handler is not invoked.
\<close>

theorem alloc_lookup_failure_status:
  assumes "request (decoder w) = Inr req" and "\<not> DisableRemoteExec c"
    and "AllocID req \<noteq> []"
    and "getAllocRunner c (AllocID req) = Inl err"
  shows "(IsErrUnknownAllocation x err \<longrightarrow>
            fst (execImpl x c eid w) = Done (Some 404, Some err))
         \<and> (\<not> IsErrUnknownAllocation x err \<longrightarrow>
            fst (execImpl x c eid w) = Done (Some 500, Some err))
         \<and> \<not> handlerInvoked w (snd (execImpl x c eid w))"
  using assms by (simp add: execImpl_unfold)

theorem alloc_lookup_failure_status_witness:
  "getAllocRunner (sampleClient None (sampleRunner ''chroot'' None) 5) ''a2''
     = Inl (ErrOther ''Unknown allocation'')
   \<and> IsErrUnknownAllocation sampleExternals (ErrOther ''Unknown allocation'')
   \<and> fst (execImpl sampleExternals (sampleClient None (sampleRunner ''chroot'' None) 5)
        ''exec-1'' (sampleWorld (sampleRequest ''a2'' ''web'' [''/bin/echo'', ''hi''])))
     = Done (Some 404, Some (ErrOther ''Unknown allocation''))
   \<and> \<not> handlerInvoked (sampleWorld (sampleRequest ''a2'' ''web'' [''/bin/echo'', ''hi'']))
        (snd (execImpl sampleExternals (sampleClient None (sampleRunner ''chroot'' None) 5)
          ''exec-1'' (sampleWorld (sampleRequest ''a2'' ''web'' [''/bin/echo'', ''hi'']))))
   \<and> \<not> IsErrUnknownAllocation sampleExternals (ErrOther ''state store closed'')
   \<and> fst (execImpl sampleExternals
        ((sampleClient None (sampleRunner ''chroot'' None) 5)
           \<lparr>getAllocRunner := (\<lambda>id. Inl (ErrOther ''state store closed''))\<rparr>)
        ''exec-1'' (sampleWorld (sampleRequest ''a1'' ''web'' [''/bin/echo'', ''hi''])))
     = Done (Some 500, Some (ErrOther ''state store closed''))"
  using alloc_lookup_failure_status
      [of "sampleWorld (sampleRequest ''a2'' ''web'' [''/bin/echo'', ''hi''])"
          "sampleRequest ''a2'' ''web'' [''/bin/echo'', ''hi'']"
          "sampleClient None (sampleRunner ''chroot'' None) 5"
          "ErrOther ''Unknown allocation''" sampleExternals "''exec-1''"]
    alloc_lookup_failure_status
      [of "sampleWorld (sampleRequest ''a1'' ''web'' [''/bin/echo'', ''hi''])"
          "sampleRequest ''a1'' ''web'' [''/bin/echo'', ''hi'']"
          "(sampleClient None (sampleRunner ''chroot'' None) 5)
             \<lparr>getAllocRunner := (\<lambda>id. Inl (ErrOther ''state store closed''))\<rparr>"
          "ErrOther ''state store closed''" sampleExternals "''exec-1''"]
  by (simp add: sample_defs)

section \<open>Task location\<close>

text \<open>
  Claim C7. For a request that passes validation and whose allocation state is read:
  a task with a zero start timestamp is answered with status 404 and the error
  \<^verbatim>\<open>task %q not started yet.\<close>; a task that has started but for which the runner has no
  exec handler is answered with status 404 and the error \<^verbatim>\<open>task %q is not running.\<close>.
  The text of the first says "not started", the text of the second "not running", and
  for every task name and every quoting of it the two texts differ.
\<close>

theorem task_not_started_or_not_running:
  assumes "request (decoder w) = Inr req" and "\<not> DisableRemoteExec c"
    and "AllocID req \<noteq> []" and "Task req \<noteq> []" and "Cmd req \<noteq> []"
    and "getAllocRunner c (AllocID req) = Inr ar"
    and "resolveTokenAndACL c (AuthToken (QueryOptions req)) = (aclObj, token, None)"
    and "allowed aclObj (Namespace (Alloc ar)) NamespaceCapabilityAllocExec"
    and "GetTaskDriverCapabilities ar (Task req) = Inr caps"
    and "FSIsolation caps = FSIsolationNone \<longrightarrow>
           allowed aclObj (Namespace (Alloc ar)) NamespaceCapabilityAllocNodeExec"
    and "GetAllocState c (AllocID req) = Inr st"
    and "index_ptr (TaskStates st) (Task req) = Some ts"
  shows "(IsZero (StartedAt ts) \<longrightarrow>
            fst (execImpl x c eid w) =
              Done (Some 404, Some (Errorf ''task %q not started yet.'' (Task req))))
         \<and> (\<not> IsZero (StartedAt ts) \<and> GetTaskExecHandler ar (Task req) = None \<longrightarrow>
            fst (execImpl x c eid w) =
              Done (Some 404, Some (Errorf ''task %q is not running.'' (Task req))))
         \<and> Sprintf_q quote ''task %q not started yet.'' (Task req)
             = ''task '' @ quote (Task req) @ '' '' @ ''not started'' @ '' yet.''
         \<and> Sprintf_q quote ''task %q is not running.'' (Task req)
             = ''task '' @ quote (Task req) @ '' is '' @ ''not running'' @ ''.''
         \<and> Sprintf_q quote ''task %q not started yet.'' (Task req)
             \<noteq> Sprintf_q quote ''task %q is not running.'' (Task req)
         \<and> Errorf ''task %q not started yet.'' (Task req)
             \<noteq> Errorf ''task %q is not running.'' (Task req)"
  using assms
  by (cases aclObj) (simp_all add: execImpl_unfold allowed_def)

theorem task_not_started_or_not_running_witness:
  "IsZero 0
   \<and> fst (execImpl sampleExternals
        (sampleClient None (sampleRunner ''chroot'' (Some sampleHandler)) 0)
        ''exec-1'' (sampleWorld (sampleRequest ''a1'' ''web'' [''/bin/echo'', ''hi''])))
     = Done (Some 404, Some (Errorf ''task %q not started yet.'' ''web''))
   \<and> \<not> IsZero 5
   \<and> GetTaskExecHandler (sampleRunner ''chroot'' None) ''web'' = None
   \<and> fst (execImpl sampleExternals
        (sampleClient None (sampleRunner ''chroot'' None) 5)
        ''exec-1'' (sampleWorld (sampleRequest ''a1'' ''web'' [''/bin/echo'', ''hi''])))
     = Done (Some 404, Some (Errorf ''task %q is not running.'' ''web''))"
  using task_not_started_or_not_running
      [of "sampleWorld (sampleRequest ''a1'' ''web'' [''/bin/echo'', ''hi''])"
          "sampleRequest ''a1'' ''web'' [''/bin/echo'', ''hi'']"
          "sampleClient None (sampleRunner ''chroot'' (Some sampleHandler)) 0"
          "sampleRunner ''chroot'' (Some sampleHandler)"
          None None "\<lparr>FSIsolation = ''chroot''\<rparr>"
          "\<lparr>TaskStates = [''web'' \<mapsto> Some \<lparr>StartedAt = 0\<rparr>]\<rparr>"
          "\<lparr>StartedAt = 0\<rparr>" sampleExternals "''exec-1''" id]
    task_not_started_or_not_running
      [of "sampleWorld (sampleRequest ''a1'' ''web'' [''/bin/echo'', ''hi''])"
          "sampleRequest ''a1'' ''web'' [''/bin/echo'', ''hi'']"
          "sampleClient None (sampleRunner ''chroot'' None) 5"
          "sampleRunner ''chroot'' None"
          None None "\<lparr>FSIsolation = ''chroot''\<rparr>"
          "\<lparr>TaskStates = [''web'' \<mapsto> Some \<lparr>StartedAt = 5\<rparr>]\<rparr>"
          "\<lparr>StartedAt = 5\<rparr>" sampleExternals "''exec-1''" id]
  by (simp add: sample_defs allowed_def index_ptr_def IsZero_def)

section \<open>The frame transport\<close>




text \<open>
  Claim C10, as stated: on a decode error \<^verbatim>\<open>Recv\<close> returns a zero-valued frame. \<^verbatim>\<open>Recv\<close>
  hands the decoder a zero frame and returns that frame as the decoder left it; it does
  not reset it when the decoder fails. With a decoder that fills in the standard-input
  field and then fails, \<^verbatim>\<open>Recv\<close> returns the error together with a frame that is not
  the zero value.
\<close>

theorem Recv_partial_frame_counterexample:
  "snd (fst (Recv (newExecStream sampleEncode)
          ((sampleWorld (sampleRequest ''a1'' ''web'' [''/bin/echo'', ''hi'']))\<lparr>decoder := \<lparr>request = Inl EOF,
                       frames = [\<lambda>t. (t\<lparr>Stdin := Some [104]\<rparr>,
                                       Some (ErrOther ''malformed frame''))]\<rparr>\<rparr>)))
     = Some (ErrOther ''malformed frame'')
   \<and> fst (fst (Recv (newExecStream sampleEncode)
          ((sampleWorld (sampleRequest ''a1'' ''web'' [''/bin/echo'', ''hi'']))\<lparr>decoder := \<lparr>request = Inl EOF,
                       frames = [\<lambda>t. (t\<lparr>Stdin := Some [104]\<rparr>,
                                       Some (ErrOther ''malformed frame''))]\<rparr>\<rparr>)))
     = Some \<lparr>Stdin = Some [104], TtySize = None, Close = None\<rparr>
   \<and> fst (fst (Recv (newExecStream sampleEncode)
          ((sampleWorld (sampleRequest ''a1'' ''web'' [''/bin/echo'', ''hi'']))\<lparr>decoder := \<lparr>request = Inl EOF,
                       frames = [\<lambda>t. (t\<lparr>Stdin := Some [104]\<rparr>,
                                       Some (ErrOther ''malformed frame''))]\<rparr>\<rparr>)))
     \<noteq> Some zeroRequestMsg"
  by (simp add: sample_defs Recv_def Decode_def Let_def zeroRequestMsg_def)

text \<open>
  Claim C10, amended. \<^verbatim>\<open>Recv\<close> always returns a non-nil frame pointer, also when the
  decoder fails: the frame is the zero value the decoder was handed, as the decoder left
  it, and it comes together with the decoder's error. At the end of the stream that is
  the zero value with \<^verbatim>\<open>io.EOF\<close>; for a message on the stream it is what the decoder
  makes of the zero frame. With a decoder that leaves its target untouched when it
  fails, the frame returned on an error is the zero value; \<^verbatim>\<open>Recv\<close> itself never resets
  the frame.
\<close>

theorem Recv_frame_never_nil:
  "fst (fst (Recv s w)) \<noteq> None
   \<and> (frames (decoder w) = [] \<longrightarrow> fst (Recv s w) = (Some zeroRequestMsg, Some EOF))
   \<and> (\<forall>f fs. frames (decoder w) = f # fs \<longrightarrow>
         fst (Recv s w) = (Some (fst (f zeroRequestMsg)), snd (f zeroRequestMsg)))
   \<and> ((\<forall>f\<in>set (frames (decoder w)). \<forall>t. snd (f t) \<noteq> None \<longrightarrow> fst (f t) = t) \<longrightarrow>
       snd (fst (Recv s w)) \<noteq> None \<longrightarrow>
       fst (fst (Recv s w)) = Some zeroRequestMsg)"
  by (auto simp add: Recv_def Decode_def Let_def split: list.splits)

theorem Recv_frame_never_nil_witness:
  "snd (fst (Recv (newExecStream sampleEncode)
          ((sampleWorld (sampleRequest ''a1'' ''web'' [''/bin/echo'', ''hi'']))\<lparr>decoder := \<lparr>request = Inl EOF,
                       frames = [\<lambda>t. (t, Some (ErrOther ''malformed frame''))]\<rparr>\<rparr>)))
     = Some (ErrOther ''malformed frame'')
   \<and> fst (fst (Recv (newExecStream sampleEncode)
          ((sampleWorld (sampleRequest ''a1'' ''web'' [''/bin/echo'', ''hi'']))\<lparr>decoder := \<lparr>request = Inl EOF,
                       frames = [\<lambda>t. (t, Some (ErrOther ''malformed frame''))]\<rparr>\<rparr>)))
     = Some zeroRequestMsg
   \<and> fst (Recv (newExecStream sampleEncode)
          ((sampleWorld (sampleRequest ''a1'' ''web'' [''/bin/echo'', ''hi'']))\<lparr>decoder := \<lparr>request = Inl EOF, frames = []\<rparr>\<rparr>))
     = (Some zeroRequestMsg, Some EOF)"
  using Recv_frame_never_nil
      [of "newExecStream sampleEncode"
          "(sampleWorld (sampleRequest ''a1'' ''web'' [''/bin/echo'', ''hi'']))\<lparr>decoder := \<lparr>request = Inl EOF,
                       frames = [\<lambda>t. (t, Some (ErrOther ''malformed frame''))]\<rparr>\<rparr>"]
    Recv_frame_never_nil
      [of "newExecStream sampleEncode"
          "(sampleWorld (sampleRequest ''a1'' ''web'' [''/bin/echo'', ''hi'']))\<lparr>decoder := \<lparr>request = Inl EOF, frames = []\<rparr>\<rparr>"]
  by (simp add: sample_defs Recv_def Decode_def Let_def)

text \<open>
  Claim C9, as stated: an envelope with an error field comes only from the error report
  made before a session. \<^verbatim>\<open>exec\<close> makes that report for every error \<^verbatim>\<open>execImpl\<close>
  returns, the handler's own included. The handler below is invoked, writes one frame
  and fails; \<^verbatim>\<open>execImpl\<close> returns status 500 with the handler's error, and \<^verbatim>\<open>exec\<close>
  hands both to \<^verbatim>\<open>handleStreamResultError\<close> on the connection that already carries the
  handler's frame. With an error report that writes its envelope, the connection then
  holds the plain envelope of the session followed by a terminal one.
\<close>

theorem terminal_envelope_after_session_counterexample:
  "handlerInvoked (sampleWorld (sampleRequest ''a1'' ''web'' [''/bin/echo'', ''hi'']))
     (snd (execImpl sampleExternals
        (sampleClient None (sampleRunner ''chroot'' (Some sendThenFailHandler)) 5)
        ''exec-1'' (sampleWorld (sampleRequest ''a1'' ''web'' [''/bin/echo'', ''hi'']))))
   \<and> fst (execImpl sampleExternals
        (sampleClient None (sampleRunner ''chroot'' (Some sendThenFailHandler)) 5)
        ''exec-1'' (sampleWorld (sampleRequest ''a1'' ''web'' [''/bin/echo'', ''hi''])))
     = Done (Some 500, Some (ErrOther ''exec failed''))
   \<and> written (encoder (snd (execImpl sampleExternals
        (sampleClient None (sampleRunner ''chroot'' (Some sendThenFailHandler)) 5)
        ''exec-1'' (sampleWorld (sampleRequest ''a1'' ''web'' [''/bin/echo'', ''hi''])))))
     = [\<lparr>Payload = [1, 104, 105], ErrorMessage = None, ErrorCode = None\<rparr>]
   \<and> encoder (snd (exec sampleExternals
        (sampleClient None (sampleRunner ''chroot'' (Some sendThenFailHandler)) 5) (sampleWorld (sampleRequest ''a1'' ''web'' [''/bin/echo'', ''hi'']))))
     = handleStreamResultError sampleExternals (ErrOther ''exec failed'') (Some 500)
         \<lparr>written = [\<lparr>Payload = [1, 104, 105], ErrorMessage = None, ErrorCode = None\<rparr>],
          fault = None\<rparr>
   \<and> written (encoder (snd (exec sampleExternals
        (sampleClient None (sampleRunner ''chroot'' (Some sendThenFailHandler)) 5) (sampleWorld (sampleRequest ''a1'' ''web'' [''/bin/echo'', ''hi''])))))
     = [\<lparr>Payload = [1, 104, 105], ErrorMessage = None, ErrorCode = None\<rparr>,
        \<lparr>Payload = [], ErrorMessage = Some ''error'', ErrorCode = Some 500\<rparr>]"
  by (simp add: sample_defs execImpl_unfold exec_def newExecStream_def Send_def Encode_def
        IsZero_def index_ptr_def)

text \<open>
  Claim C9, amended. Every envelope \<^verbatim>\<open>Send\<close> writes has both error fields unset, and it
  writes at most one; so has every envelope written while a handler runs, and every
  envelope written during \<^verbatim>\<open>execImpl\<close>, before and during the session. An envelope with
  an error field is never the work of \<^verbatim>\<open>Send\<close>: it can come only from the error report
  of \<^verbatim>\<open>exec\<close>, which is made whenever \<^verbatim>\<open>execImpl\<close> returns an error, for a failure
  before the session and for the failure of the handler alike. What \<^verbatim>\<open>exec\<close> leaves on
  the connection is what \<^verbatim>\<open>execImpl\<close> left there, passed through
  \<^verbatim>\<open>handleStreamResultError\<close> when \<^verbatim>\<open>execImpl\<close> returned an error, and untouched
  otherwise.
\<close>

theorem Send_never_terminal:
  "plainEnvelopes (sentBy w (snd (snd (Send s w m))))
   \<and> length (sentBy w (snd (snd (Send s w m)))) \<le> 1
   \<and> plainEnvelopes (sentBy w (snd (snd (runHandler p s w))))
   \<and> plainEnvelopes (sentBy w (snd (execImpl x c eid w)))
   \<and> encoder (snd (exec x c w)) =
       (case fst (execImpl x c (uuidGenerate x) w) of
          Done (code, Some err) \<Rightarrow>
            handleStreamResultError x err code (encoder (snd (execImpl x c (uuidGenerate x) w)))
        | _ \<Rightarrow> encoder (snd (execImpl x c (uuidGenerate x) w)))"
proof -
  have "encoder (snd (exec x c w)) =
       (case fst (execImpl x c (uuidGenerate x) w) of
          Done (code, Some err) \<Rightarrow>
            handleStreamResultError x err code (encoder (snd (execImpl x c (uuidGenerate x) w)))
        | _ \<Rightarrow> encoder (snd (execImpl x c (uuidGenerate x) w)))"
    by (simp add: exec_def Let_def logger_def split: outcome.split option.split prod.split)
  with Send_world[of s w m] runHandler_sent[of p s w] execImpl_sent[of x c eid w]
  show ?thesis by simp
qed

theorem Send_never_terminal_witness:
  "sentBy (sampleWorld (sampleRequest ''a1'' ''web'' [''/bin/echo'', ''hi'']))
     (snd (snd (Send (newExecStream sampleEncode)
        (sampleWorld (sampleRequest ''a1'' ''web'' [''/bin/echo'', ''hi'']))
        (exitFrame 3))))
     = [\<lparr>Payload = [0], ErrorMessage = None, ErrorCode = None\<rparr>]
   \<and> sentBy (sampleWorld (sampleRequest ''a2'' ''web'' [''/bin/echo'', ''hi'']))
        (snd (execImpl sampleExternals (sampleClient None (sampleRunner ''chroot'' None) 5)
          ''exec-1'' (sampleWorld (sampleRequest ''a2'' ''web'' [''/bin/echo'', ''hi'']))))
     = []
   \<and> written (encoder (snd (exec sampleExternals
        (sampleClient None (sampleRunner ''chroot'' None) 5)
        (sampleWorld (sampleRequest ''a2'' ''web'' [''/bin/echo'', ''hi''])))))
     = [\<lparr>Payload = [], ErrorMessage = Some ''error'', ErrorCode = Some 404\<rparr>]"
  using Send_never_terminal
      [of "sampleWorld (sampleRequest ''a1'' ''web'' [''/bin/echo'', ''hi''])"
          "newExecStream sampleEncode" "exitFrame 3" "Return None"]
    Send_never_terminal
      [of "sampleWorld (sampleRequest ''a2'' ''web'' [''/bin/echo'', ''hi''])"
          "newExecStream sampleEncode" "exitFrame 3" "Return None"
          sampleExternals "sampleClient None (sampleRunner ''chroot'' None) 5" "''exec-1''"]
  by (simp add: sample_defs execImpl_unfold exec_def newExecStream_def Send_def Encode_def
        sentBy_def)

section \<open>The session\<close>

text \<open>
  Claim C5. In every run that invokes the driver's handler: if the handler returns an
  error, \<^verbatim>\<open>execImpl\<close> returns status 500 paired with that error; if the handler returns
  without error, \<^verbatim>\<open>execImpl\<close> returns no status code and no error. The envelopes on the
  connection after \<^verbatim>\<open>execImpl\<close> are those the handler's own run left there, and after a
  success \<^verbatim>\<open>exec\<close> adds none: the endpoint writes no frame of its own. The handler's run
  is taken on the connection as the endpoint found it; the run inside \<^verbatim>\<open>execImpl\<close>
  differs from it by log entries only.
\<close>

theorem session_outcome:
  assumes "handlerInvoked w (snd (execImpl x c eid w))"
  shows "\<exists>req ar h. request (decoder w) = Inr req
      \<and> getAllocRunner c (AllocID req) = Inr ar
      \<and> GetTaskExecHandler ar (Task req) = Some h
      \<and> (\<forall>err. fst (runHandler (h (Cmd req) (Tty req)) (newExecStream (JsonHandle x)) w)
                  = Done (Some err) \<longrightarrow>
            fst (execImpl x c eid w) = Done (Some 500, Some err))
      \<and> (fst (runHandler (h (Cmd req) (Tty req)) (newExecStream (JsonHandle x)) w)
            = Done None \<longrightarrow>
            fst (execImpl x c eid w) = Done (None, None)
            \<and> (eid = uuidGenerate x \<longrightarrow>
                 written (encoder (snd (exec x c w))) =
                 written (encoder (snd (snd (runHandler (h (Cmd req) (Tty req))
                                              (newExecStream (JsonHandle x)) w))))))
      \<and> written (encoder (snd (execImpl x c eid w))) =
          written (encoder (snd (snd (runHandler (h (Cmd req) (Tty req))
                                       (newExecStream (JsonHandle x)) w))))"
proof -
  from handler_reached[OF assms] obtain req ar h where
    F: "request (decoder w) = Inr req" "getAllocRunner c (AllocID req) = Inr ar"
       "GetTaskExecHandler ar (Task req) = Some h"
       "fst (execImpl x c eid w) =
           (case fst (runHandler (h (Cmd req) (Tty req)) (newExecStream (JsonHandle x)) w) of
              Panic e \<Rightarrow> Panic e
            | Done None \<Rightarrow> Done (None, None)
            | Done (Some err) \<Rightarrow> Done (Some 500, Some err))"
       "encoder (snd (execImpl x c eid w)) =
           encoder (snd (snd (runHandler (h (Cmd req) (Tty req))
                                (newExecStream (JsonHandle x)) w)))"
    by blast
  have X: "fst (execImpl x c (uuidGenerate x) w) = Done (None, None) \<Longrightarrow>
           encoder (snd (exec x c w)) = encoder (snd (execImpl x c (uuidGenerate x) w))"
    by (simp add: exec_def Let_def logger_def)
  from F X show ?thesis by (intro exI[of _ req] exI[of _ ar] exI[of _ h]) auto
qed

theorem session_outcome_witness:
  "handlerInvoked (sampleWorld (sampleRequest ''a1'' ''web'' [''/bin/echo'', ''hi'']))
     (snd (execImpl sampleExternals
        (sampleClient (Some (sampleACL [''alloc-exec''])) (sampleRunner ''chroot'' (Some sampleHandler)) 5)
        ''exec-1'' (sampleWorld (sampleRequest ''a1'' ''web'' [''/bin/echo'', ''hi'']))))
   \<and> fst (runHandler (sampleHandler [''/bin/echo'', ''hi''] False) (newExecStream sampleEncode)
        (sampleWorld (sampleRequest ''a1'' ''web'' [''/bin/echo'', ''hi''])))
     = Done None
   \<and> fst (execImpl sampleExternals
        (sampleClient (Some (sampleACL [''alloc-exec''])) (sampleRunner ''chroot'' (Some sampleHandler)) 5)
        ''exec-1'' (sampleWorld (sampleRequest ''a1'' ''web'' [''/bin/echo'', ''hi''])))
     = Done (None, None)
   \<and> written (encoder (snd (exec sampleExternals
        (sampleClient (Some (sampleACL [''alloc-exec''])) (sampleRunner ''chroot'' (Some sampleHandler)) 5)
        (sampleWorld (sampleRequest ''a1'' ''web'' [''/bin/echo'', ''hi'']))))) 
     = [\<lparr>Payload = [1, 104, 105], ErrorMessage = None, ErrorCode = None\<rparr>,
        \<lparr>Payload = [0], ErrorMessage = None, ErrorCode = None\<rparr>]
   \<and> handlerInvoked (sampleWorld (sampleRequest ''a1'' ''web'' [''/bin/echo'', ''hi'']))
     (snd (execImpl sampleExternals
        (sampleClient None (sampleRunner ''chroot'' (Some failingHandler)) 5)
        ''exec-1'' (sampleWorld (sampleRequest ''a1'' ''web'' [''/bin/echo'', ''hi'']))))
   \<and> fst (execImpl sampleExternals
        (sampleClient None (sampleRunner ''chroot'' (Some failingHandler)) 5)
        ''exec-1'' (sampleWorld (sampleRequest ''a1'' ''web'' [''/bin/echo'', ''hi''])))
     = Done (Some 500, Some (ErrOther ''exec failed''))"
  using session_outcome
      [of "sampleWorld (sampleRequest ''a1'' ''web'' [''/bin/echo'', ''hi''])" sampleExternals
          "sampleClient (Some (sampleACL [''alloc-exec''])) (sampleRunner ''chroot'' (Some sampleHandler)) 5"
          "''exec-1''"]
    session_outcome
      [of "sampleWorld (sampleRequest ''a1'' ''web'' [''/bin/echo'', ''hi''])" sampleExternals
          "sampleClient None (sampleRunner ''chroot'' (Some failingHandler)) 5"
          "''exec-1''"]
  by (simp add: sample_defs execImpl_unfold exec_def newExecStream_def Send_def Encode_def
        IsZero_def index_ptr_def)

section \<open>Order of the checks\<close>

text \<open>
  Claim C3, as stated: whenever a capability check is evaluated, the allocation ID and
  the task name of the request are both non-empty. The source evaluates the "alloc-exec"
  check before it looks at the task name: the request below has an empty task name, the
  check is evaluated all the same, and only then is the request refused with status 400.
\<close>

theorem capability_check_with_empty_task_counterexample:
  "request (decoder (sampleWorld (sampleRequest ''a1'' [] [''/bin/echo'', ''hi''])))
     = Inr (sampleRequest ''a1'' [] [''/bin/echo'', ''hi''])
   \<and> Task (sampleRequest ''a1'' [] [''/bin/echo'', ''hi'']) = []
   \<and> AllowNsOpCall ''default'' NamespaceCapabilityAllocExec
       \<in> set (emitted (sampleWorld (sampleRequest ''a1'' [] [''/bin/echo'', ''hi'']))
           (snd (execImpl sampleExternals
             (sampleClient (Some (sampleACL [''alloc-exec'']))
                (sampleRunner ''chroot'' (Some sampleHandler)) 5)
             ''exec-1'' (sampleWorld (sampleRequest ''a1'' [] [''/bin/echo'', ''hi'']))))) 
   \<and> fst (execImpl sampleExternals
             (sampleClient (Some (sampleACL [''alloc-exec'']))
                (sampleRunner ''chroot'' (Some sampleHandler)) 5)
             ''exec-1'' (sampleWorld (sampleRequest ''a1'' [] [''/bin/echo'', ''hi''])))
       = Done (Some 400, Some taskNotPresentErr)"
  by (simp add: sample_defs execImpl_unfold)

text \<open>
  Claim C3, amended. Whenever a capability check is evaluated the request was decoded
  and its allocation ID is non-empty; whenever the check is not the "alloc-exec" one
  (that is, for the "alloc-node-exec" check) the task name and the command are non-empty
  as well; and whenever the driver's handler is invoked, allocation ID, task name and
  command are all non-empty.
\<close>

theorem fields_present_before_checks:
  "(AllowNsOpCall ns cap \<in> set (emitted w (snd (execImpl x c eid w))) \<longrightarrow>
      (\<exists>req. request (decoder w) = Inr req \<and> AllocID req \<noteq> []
         \<and> (cap \<noteq> NamespaceCapabilityAllocExec \<longrightarrow> Task req \<noteq> [] \<and> Cmd req \<noteq> [])))
   \<and> (handlerInvoked w (snd (execImpl x c eid w)) \<longrightarrow>
      (\<exists>req. request (decoder w) = Inr req
         \<and> AllocID req \<noteq> [] \<and> Task req \<noteq> [] \<and> Cmd req \<noteq> []))"
proof (intro conjI impI)
  assume H: "AllowNsOpCall ns cap \<in> set (emitted w (snd (execImpl x c eid w)))"
  obtain req where R: "request (decoder w) = Inr req"
    using H by (cases "request (decoder w)") (simp_all add: execImpl_unfold)
  have D: "\<not> DisableRemoteExec c"
    using H R by (rule_tac notI) (simp add: execImpl_unfold)
  have A: "AllocID req \<noteq> []"
    using H R D by (rule_tac notI) (simp add: execImpl_unfold)
  obtain ar where AR: "getAllocRunner c (AllocID req) = Inr ar"
    using H R D A by (cases "getAllocRunner c (AllocID req)") (simp_all add: execImpl_unfold)
  obtain aclObj token err where RES:
    "resolveTokenAndACL c (AuthToken (QueryOptions req)) = (aclObj, token, err)"
    by (cases "resolveTokenAndACL c (AuthToken (QueryOptions req))") auto
  have E: "err = None"
    using H R D A AR RES by (cases err) (simp_all add: execImpl_unfold)
  have T: "Task req \<noteq> [] \<and> Cmd req \<noteq> []" if N: "cap \<noteq> NamespaceCapabilityAllocExec"
    using H R D A AR RES E N
    by (cases aclObj; cases "Task req = []"; cases "Cmd req = []")
       (auto simp add: execImpl_unfold split: if_splits)
  from R A T show "\<exists>req. request (decoder w) = Inr req \<and> AllocID req \<noteq> []
         \<and> (cap \<noteq> NamespaceCapabilityAllocExec \<longrightarrow> Task req \<noteq> [] \<and> Cmd req \<noteq> [])"
    by blast
next
  assume "handlerInvoked w (snd (execImpl x c eid w))"
  from handler_reached[OF this]
  show "\<exists>req. request (decoder w) = Inr req
         \<and> AllocID req \<noteq> [] \<and> Task req \<noteq> [] \<and> Cmd req \<noteq> []"
    by blast
qed

theorem fields_present_before_checks_witness:
  "AllowNsOpCall ''default'' ''alloc-node-exec''
     \<in> set (emitted (sampleWorld (sampleRequest ''a1'' ''web'' [''/bin/echo'', ''hi'']))
         (snd (execImpl sampleExternals
           (sampleClient (Some (sampleACL [''alloc-exec'', ''alloc-node-exec'']))
              (sampleRunner ''none'' (Some sampleHandler)) 5)
           ''exec-1'' (sampleWorld (sampleRequest ''a1'' ''web'' [''/bin/echo'', ''hi''])))))
   \<and> handlerInvoked (sampleWorld (sampleRequest ''a1'' ''web'' [''/bin/echo'', ''hi'']))
         (snd (execImpl sampleExternals
           (sampleClient (Some (sampleACL [''alloc-exec'', ''alloc-node-exec'']))
              (sampleRunner ''none'' (Some sampleHandler)) 5)
           ''exec-1'' (sampleWorld (sampleRequest ''a1'' ''web'' [''/bin/echo'', ''hi'']))))
   \<and> ''alloc-node-exec'' \<noteq> NamespaceCapabilityAllocExec
   \<and> AllocID (sampleRequest ''a1'' ''web'' [''/bin/echo'', ''hi'']) \<noteq> []
   \<and> Task (sampleRequest ''a1'' ''web'' [''/bin/echo'', ''hi'']) \<noteq> []
   \<and> Cmd (sampleRequest ''a1'' ''web'' [''/bin/echo'', ''hi'']) \<noteq> []"
  using fields_present_before_checks
      [of "''default''" "''alloc-node-exec''"
          "sampleWorld (sampleRequest ''a1'' ''web'' [''/bin/echo'', ''hi''])" sampleExternals
          "sampleClient (Some (sampleACL [''alloc-exec'', ''alloc-node-exec'']))
              (sampleRunner ''none'' (Some sampleHandler)) 5"
          "''exec-1''"]
  by (simp add: sample_defs execImpl_unfold newExecStream_def Send_def Encode_def
        IsZero_def index_ptr_def)

end
